theory Spec2Isabelle
  imports Main "HOL-Library.Word"
begin

section \<open>JavaScript values used by the deck editor\<close>

text \<open>
  A JavaScript string is a sequence of UTF-16 code units. The texts typed by the user
  (deck title, card faces) and the identifiers handed out by the remote store are
  modelled as such; the fixed ASCII messages of the component (alerts, console output)
  are written as HOL strings.
\<close>

type_synonym jsstring = "16 word list"

text \<open>
  \<open>String.prototype.trim\<close> removes the WhiteSpace and LineTerminator code points of
  the language standard from both ends: TAB, VT, FF, the byte order mark, the space
  separators of Unicode, and LF, CR, LS, PS.
\<close>

definition whiteSpaceCodes :: "16 word list" where
  "whiteSpaceCodes =
     [0x0009, 0x000A, 0x000B, 0x000C, 0x000D, 0x0020, 0x00A0, 0x1680,
      0x2000, 0x2001, 0x2002, 0x2003, 0x2004, 0x2005, 0x2006, 0x2007,
      0x2008, 0x2009, 0x200A, 0x2028, 0x2029, 0x202F, 0x205F, 0x3000, 0xFEFF]"

definition isWhiteSpace :: "16 word \<Rightarrow> bool" where
  "isWhiteSpace c = List.member whiteSpaceCodes c"

definition trim :: "jsstring \<Rightarrow> jsstring" where
  "trim s = rev (dropWhile isWhiteSpace (rev (dropWhile isWhiteSpace s)))"

text \<open>Truthiness of a string value: only the empty string is falsy.\<close>

definition truthy :: "jsstring \<Rightarrow> bool" where
  "truthy s = (s \<noteq> [])"

text \<open>
  Truthiness of an optional string property (\<open>card._id\<close>): \<open>undefined\<close> and the
  empty string are falsy.
\<close>

definition truthyOpt :: "jsstring option \<Rightarrow> bool" where
  "truthyOpt v = (case v of None \<Rightarrow> False | Some i \<Rightarrow> truthy i)"

text \<open>Array indexing \<open>xs[i]\<close>: \<open>undefined\<close> (here \<open>None\<close>) outside the array.\<close>

definition at :: "'a list \<Rightarrow> int \<Rightarrow> 'a option" where
  "at xs i = (if 0 \<le> i \<and> i < int (length xs) then Some (xs ! nat i) else None)"

text \<open>
  \<open>xs.splice(i, 1)\<close> on a copy: a negative start counts from the end, a start past
  the end removes nothing.
\<close>

definition splice1 :: "'a list \<Rightarrow> int \<Rightarrow> 'a list" where
  "splice1 xs i =
     (let n = int (length xs);
          k = (if i < 0 then max (n + i) 0 else min i n)
      in take (nat k) xs @ drop (nat k + 1) xs)"

section \<open>Data model\<close>

text \<open>
  A card \<open>{_id, front, back}\<close>, with the fields named \<open>card_id\<close>, \<open>card_front\<close>
  and \<open>card_back\<close>; \<open>_id\<close> is absent on a card not yet persisted.
\<close>

record card =
  card_id :: "jsstring option"
  card_front :: jsstring
  card_back :: jsstring

text \<open>The four \<open>useState\<close> cells of the component.\<close>

record editor =
  deckTitle :: jsstring
  flashcardsData :: "card list"
  currentCardIndex :: int
  isFlipped :: bool

text \<open>
  The \<open>editDeck\<close> prop: \<open>_id\<close> (here \<open>deck_oid\<close>), \<open>deck_id\<close>, \<open>title\<close> and
  \<open>cards\<close>. Either identifier may be missing from the object.
\<close>

record edit_deck =
  deck_oid :: "jsstring option"
  deck_id :: "jsstring option"
  title :: jsstring
  cards :: "card list"

text \<open>
  What the component reads from its surroundings: the user name of the context, the
  \<open>id\<close> of the \<open>subject\<close> prop (\<open>None\<close> when no subject is passed) and the
  \<open>editDeck\<close> prop.
\<close>

record props =
  username :: jsstring
  subject :: "jsstring option"
  editDeck :: "edit_deck option"

section \<open>The remote store and the observable effects\<close>

text \<open>
  The five requests the component sends. An identifier interpolated into a URL or put
  into a JSON body may be \<open>undefined\<close>, hence the options.
\<close>

datatype request =
    DeleteCardReq jsstring
  | UpdateDeckReq "jsstring option" jsstring
  | CreateDeckReq jsstring jsstring jsstring
  | UpdateCardReq jsstring jsstring jsstring
  | CreateCardReq jsstring "jsstring option" jsstring jsstring

text \<open>
  What the body of a response is for \<open>await res.json()\<close> followed by
  \<open>data.deck.deck_id\<close>: not JSON, JSON without a \<open>deck\<close> object, or a \<open>deck\<close>
  object with its (possibly missing) \<open>deck_id\<close>.
\<close>

datatype response_body = NotJson | NoDeck | DeckBody "jsstring option"

text \<open>
  \<open>fetch\<close> rejects only when the transport fails; any HTTP answer resolves the promise,
  with \<open>ok\<close> telling whether the status is in 200..299.
\<close>

datatype fetch_result = Rejected | Responded bool response_body

datatype error = TypeError | NetworkError | SyntaxError | Error string

datatype event =
    Alert string
  | Confirm string
  | ConsoleError string error
  | Fetch request
  | OnSubmit

fun requests :: "event list \<Rightarrow> request list" where
  "requests [] = []"
| "requests (Fetch r # es) = r # requests es"
| "requests (_ # es) = requests es"

fun isCardUpsert :: "request \<Rightarrow> bool" where
  "isCardUpsert (UpdateCardReq _ _ _) = True"
| "isCardUpsert (CreateCardReq _ _ _ _) = True"
| "isCardUpsert _ = False"

section \<open>The editor state machine\<close>

definition blankCard :: card where
  "blankCard = \<lparr>card_id = None, card_front = [], card_back = []\<rparr>"

definition blankEditor :: editor where
  "blankEditor =
     \<lparr>deckTitle = [], flashcardsData = [blankCard], currentCardIndex = 0, isFlipped = False\<rparr>"

text \<open>The effect run whenever the \<open>editDeck\<close> prop changes.\<close>

definition initEditor :: "edit_deck option \<Rightarrow> editor" where
  "initEditor e =
     (case e of
        Some d \<Rightarrow>
          \<lparr>deckTitle = title d,
           flashcardsData =
             map (\<lambda>c. \<lparr>card_id = card_id c, card_front = card_front c, card_back = card_back c\<rparr>) (cards d),
           currentCardIndex = 0,
           isFlipped = False\<rparr>
      | None \<Rightarrow> blankEditor)"

definition handleFlip :: "editor \<Rightarrow> editor" where
  "handleFlip s = s\<lparr>isFlipped := \<not> isFlipped s\<rparr>"

definition handlePrev :: "editor \<Rightarrow> editor" where
  "handlePrev s =
     (if currentCardIndex s > 0
      then s\<lparr>currentCardIndex := currentCardIndex s - 1, isFlipped := False\<rparr>
      else s)"

definition handleNext :: "editor \<Rightarrow> editor" where
  "handleNext s =
     (if currentCardIndex s < int (length (flashcardsData s)) - 1
      then s\<lparr>currentCardIndex := currentCardIndex s + 1, isFlipped := False\<rparr>
      else s)"

definition handleAddFlashcard :: "editor \<Rightarrow> editor" where
  "handleAddFlashcard s =
     s\<lparr>flashcardsData := flashcardsData s @ [blankCard],
       currentCardIndex := int (length (flashcardsData s)),
       isFlipped := False\<rparr>"

text \<open>\<open>const currentCard = flashcardsData[currentCardIndex]\<close>.\<close>

definition currentCard :: "editor \<Rightarrow> card option" where
  "currentCard s = at (flashcardsData s) (currentCardIndex s)"

text \<open>
  Deleting the current card. \<open>confirm\<close> is the user's answer to the prompt and
  \<open>res\<close> the outcome of the DELETE request; each is consulted only where the code
  reaches it. Reading \<open>_id\<close> of an undefined card throws before the \<open>try\<close>.
  The response is awaited and then dropped: its status is never read.
\<close>

definition handleDeleteCard :: "editor \<Rightarrow> bool \<Rightarrow> fetch_result \<Rightarrow> error + (editor \<times> event list)" where
  "handleDeleteCard s confirm res =
     (case at (flashcardsData s) (currentCardIndex s) of
        None \<Rightarrow> Inl TypeError
      | Some cardToDelete \<Rightarrow>
          (case card_id cardToDelete of
             None \<Rightarrow> Inr (s, [])
           | Some i \<Rightarrow>
               if \<not> truthy i then Inr (s, [])
               else if \<not> confirm
               then Inr (s, [Confirm ''Are you sure you want to delete this card?''])
               else
                 (case res of
                    Rejected \<Rightarrow>
                      Inr (s, [Confirm ''Are you sure you want to delete this card?'',
                               Fetch (DeleteCardReq i),
                               ConsoleError ''Error deleting flashcard:'' NetworkError,
                               Alert ''Failed to delete flashcard.''])
                  | Responded ok body \<Rightarrow>
                      (let updated = splice1 (flashcardsData s) (currentCardIndex s)
                       in Inr (s\<lparr>flashcardsData :=
                                    (if length updated > 0 then updated else [blankCard]),
                                  currentCardIndex := max 0 (currentCardIndex s - 1),
                                  isFlipped := False\<rparr>,
                               [Confirm ''Are you sure you want to delete this card?'',
                                Fetch (DeleteCardReq i)])))))"

text \<open>
  Editing a face of the current card: the array is copied and the card at the current
  index is assigned to; on an undefined card the assignment throws.
\<close>

definition handleChangeFront :: "editor \<Rightarrow> jsstring \<Rightarrow> error + editor" where
  "handleChangeFront s v =
     (case at (flashcardsData s) (currentCardIndex s) of
        None \<Rightarrow> Inl TypeError
      | Some c \<Rightarrow>
          Inr (s\<lparr>flashcardsData :=
                   (flashcardsData s)[nat (currentCardIndex s) := c\<lparr>card_front := v\<rparr>]\<rparr>))"

definition handleChangeBack :: "editor \<Rightarrow> jsstring \<Rightarrow> error + editor" where
  "handleChangeBack s v =
     (case at (flashcardsData s) (currentCardIndex s) of
        None \<Rightarrow> Inl TypeError
      | Some c \<Rightarrow>
          Inr (s\<lparr>flashcardsData :=
                   (flashcardsData s)[nat (currentCardIndex s) := c\<lparr>card_back := v\<rparr>]\<rparr>))"

text \<open>
  What a run of \<open>handleDeleteCard\<close> leaves behind: an exception thrown before any
  state is set and before any effect leaves the state as it was and no trace.
\<close>

definition stateAfter :: "editor \<Rightarrow> error + (editor \<times> event list) \<Rightarrow> editor" where
  "stateAfter s r = (case r of Inl _ \<Rightarrow> s | Inr (s', _) \<Rightarrow> s')"

definition effects :: "error + (editor \<times> event list) \<Rightarrow> event list" where
  "effects r = (case r of Inl _ \<Rightarrow> [] | Inr (_, tr) \<Rightarrow> tr)"

text \<open>
  The condition under which the delete button is rendered,
  \<open>flashcardsData[currentCardIndex]?._id\<close>: there is a current card and its id is truthy.
\<close>

definition currentHasId :: "editor \<Rightarrow> bool" where
  "currentHasId s = (case currentCard s of None \<Rightarrow> False | Some c \<Rightarrow> truthyOpt (card_id c))"

text \<open>
  A remote failure as the store signals it: the transport rejects, or the response
  carries a non-success status.
\<close>

definition failed :: "fetch_result \<Rightarrow> bool" where
  "failed r = (case r of Rejected \<Rightarrow> True | Responded ok body \<Rightarrow> \<not> ok)"

section \<open>Saving\<close>

definition validCard :: "card \<Rightarrow> bool" where
  "validCard c = (truthy (trim (card_front c)) \<and> truthy (trim (card_back c)))"

definition collectFlashcards :: "editor \<Rightarrow> card list" where
  "collectFlashcards s = filter validCard (flashcardsData s)"

text \<open>The request built for one collected card inside \<open>collectedFlashcards.map\<close>.\<close>

definition cardRequest :: "jsstring \<Rightarrow> jsstring option \<Rightarrow> card \<Rightarrow> request" where
  "cardRequest user deckId c =
     (case card_id c of
        None \<Rightarrow> CreateCardReq user deckId (card_front c) (card_back c)
      | Some i \<Rightarrow>
          if truthy i then UpdateCardReq i (card_front c) (card_back c)
          else CreateCardReq user deckId (card_front c) (card_back c))"

text \<open>The \<open>catch\<close> block of \<open>handleSubmit\<close>.\<close>

definition saveFailed :: "error \<Rightarrow> event list" where
  "saveFailed err =
     [ConsoleError ''Error saving deck and flashcards:'' err,
      Alert ''Error saving deck and flashcards. Please try again.'']"

text \<open>
  The first half of the \<open>try\<close> block: the deck request and the value bound to
  \<open>deckId\<close>, or the error thrown. In create mode \<open>subject.id\<close> is read while the
  request body is built, so a missing subject throws before anything is sent.
\<close>

definition upsertDeck :: "props \<Rightarrow> editor \<Rightarrow> fetch_result \<Rightarrow> event list \<times> (error + jsstring option)" where
  "upsertDeck p s deckRes =
     (case editDeck p of
        Some e \<Rightarrow>
          (let sent = [Fetch (UpdateDeckReq (deck_oid e) (deckTitle s))]
           in case deckRes of
                Rejected \<Rightarrow> (sent, Inl NetworkError)
              | Responded ok body \<Rightarrow>
                  if \<not> ok then (sent, Inl (Error ''Failed to update deck''))
                  else (sent, Inr (deck_id e)))
      | None \<Rightarrow>
          (case subject p of
             None \<Rightarrow> ([], Inl TypeError)
           | Some sid \<Rightarrow>
               (let sent = [Fetch (CreateDeckReq (username p) (deckTitle s) sid)]
                in case deckRes of
                     Rejected \<Rightarrow> (sent, Inl NetworkError)
                   | Responded ok body \<Rightarrow>
                       if \<not> ok then (sent, Inl (Error ''Failed to create deck''))
                       else
                         (case body of
                            NotJson \<Rightarrow> (sent, Inl SyntaxError)
                          | NoDeck \<Rightarrow> (sent, Inl TypeError)
                          | DeckBody d \<Rightarrow> (sent, Inr d)))))"

text \<open>
  Saving. \<open>deckRes\<close> is the outcome of the deck request and \<open>cardRes k\<close> the outcome
  of the request made for the \<open>k\<close>-th collected card. All card requests are started by
  the \<open>map\<close> before any is awaited; \<open>Promise.all\<close> rejects exactly when one of the
  promises rejects, and the responses themselves are not looked at. The callback
  \<open>onSubmit\<close> of the parent is taken to return normally.
\<close>

definition handleSubmit :: "props \<Rightarrow> editor \<Rightarrow> fetch_result \<Rightarrow> (nat \<Rightarrow> fetch_result) \<Rightarrow> editor \<times> event list" where
  "handleSubmit p s deckRes cardRes =
     (if \<not> truthy (trim (deckTitle s)) then (s, [Alert ''Deck title is required!''])
      else
        (let collectedFlashcards = collectFlashcards s
         in if length collectedFlashcards = 0
            then (s, [Alert ''At least one flashcard is required!''])
            else
              (case upsertDeck p s deckRes of
                 (sent, Inl err) \<Rightarrow> (s, sent @ saveFailed err)
               | (sent, Inr deckId) \<Rightarrow>
                   (let cardPromises = map (cardRequest (username p) deckId) collectedFlashcards;
                        issued = sent @ map Fetch cardPromises
                    in if list_ex (\<lambda>k. cardRes k = Rejected) [0..<length cardPromises]
                       then (s, issued @ saveFailed NetworkError)
                       else (blankEditor,
                             issued @
                             [Alert (if editDeck p \<noteq> None then ''Deck updated!''
                                     else ''Deck and flashcards saved!''),
                              OnSubmit])))))"

section \<open>Sequences of operations\<close>

text \<open>
  The operations of the editor with what the surroundings answer. An exception thrown by
  a handler sets no state, so the state stays as it was. Each handler works on the state
  it was started in, and the operations of a sequence run one after the other.
\<close>

datatype operation =
    Flip
  | Prev
  | Next
  | AddCard
  | EditFront jsstring
  | EditBack jsstring
  | DeleteCard bool fetch_result

fun step :: "operation \<Rightarrow> editor \<Rightarrow> editor" where
  "step Flip s = handleFlip s"
| "step Prev s = handlePrev s"
| "step Next s = handleNext s"
| "step AddCard s = handleAddFlashcard s"
| "step (EditFront v) s = (case handleChangeFront s v of Inl _ \<Rightarrow> s | Inr s' \<Rightarrow> s')"
| "step (EditBack v) s = (case handleChangeBack s v of Inl _ \<Rightarrow> s | Inr s' \<Rightarrow> s')"
| "step (DeleteCard confirm res) s = stateAfter s (handleDeleteCard s confirm res)"

fun run :: "operation list \<Rightarrow> editor \<Rightarrow> editor" where
  "run [] s = s"
| "run (a # as) s = run as (step a s)"

text \<open>The invariant of the session state: a non-empty list and an index into it.\<close>

definition editorInv :: "editor \<Rightarrow> bool" where
  "editorInv s =
     (flashcardsData s \<noteq> [] \<and> 0 \<le> currentCardIndex s
      \<and> currentCardIndex s < int (length (flashcardsData s)))"

section \<open>Example inputs\<close>

text \<open>
  Concrete values for the examples below: the user \<open>"u"\<close>, the subject \<open>"s1"\<close>, the
  title \<open>"T"\<close>, cards with the faces \<open>"Q"\<close>/\<open>"A"\<close> and \<open>"R"\<close>/\<open>"B"\<close>, card ids
  \<open>"c1"\<close> and \<open>"c2"\<close>, and an edit target whose \<open>_id\<close> is \<open>"o1"\<close> and whose
  \<open>deck_id\<close> is \<open>"d1"\<close>.
\<close>

abbreviation exCardNew :: card where
  "exCardNew \<equiv> \<lparr>card_id = None, card_front = [0x51], card_back = [0x41]\<rparr>"

abbreviation exCardHalf :: card where
  "exCardHalf \<equiv> \<lparr>card_id = None, card_front = [0x51], card_back = []\<rparr>"

abbreviation exCard1 :: card where
  "exCard1 \<equiv> \<lparr>card_id = Some [0x63, 0x31], card_front = [0x51], card_back = [0x41]\<rparr>"

abbreviation exCard2 :: card where
  "exCard2 \<equiv> \<lparr>card_id = Some [0x63, 0x32], card_front = [0x52], card_back = [0x42]\<rparr>"

abbreviation exEditor :: "card list \<Rightarrow> int \<Rightarrow> editor" where
  "exEditor cs k \<equiv>
     \<lparr>deckTitle = [0x54], flashcardsData = cs, currentCardIndex = k, isFlipped = True\<rparr>"

abbreviation exCreateProps :: props where
  "exCreateProps \<equiv> \<lparr>username = [0x75], subject = Some [0x73, 0x31], editDeck = None\<rparr>"

abbreviation exEditDeck :: "card list \<Rightarrow> edit_deck" where
  "exEditDeck cs \<equiv>
     \<lparr>deck_oid = Some [0x6F, 0x31], deck_id = Some [0x64, 0x31], title = [0x54], cards = cs\<rparr>"

abbreviation exEditProps :: "card list \<Rightarrow> props" where
  "exEditProps cs \<equiv>
     \<lparr>username = [0x75], subject = None, editDeck = Some (exEditDeck cs)\<rparr>"

section \<open>Adding a card\<close>

text \<open>
  Claim C8. In every editor state, adding a card appends exactly one blank card without
  an id behind the existing cards, which stay as they are; afterwards the current index
  is the last index of the new list and the card shows its front.
\<close>

theorem C8_add_card:
  "flashcardsData (handleAddFlashcard s) = flashcardsData s @ [blankCard]
   \<and> card_id blankCard = None \<and> card_front blankCard = [] \<and> card_back blankCard = []
   \<and> take (length (flashcardsData s)) (flashcardsData (handleAddFlashcard s)) = flashcardsData s
   \<and> length (flashcardsData (handleAddFlashcard s)) = length (flashcardsData s) + 1
   \<and> currentCardIndex (handleAddFlashcard s) = int (length (flashcardsData (handleAddFlashcard s))) - 1
   \<and> at (flashcardsData (handleAddFlashcard s)) (currentCardIndex (handleAddFlashcard s)) = Some blankCard
   \<and> isFlipped (handleAddFlashcard s) = False
   \<and> deckTitle (handleAddFlashcard s) = deckTitle s"
  by (simp add: handleAddFlashcard_def blankCard_def at_def)

section \<open>Facts about traces and requests\<close>

lemma requests_append: "requests (xs @ ys) = requests xs @ requests ys"
  by (induction xs rule: requests.induct) auto

lemma requests_map_Fetch: "requests (map (Fetch \<circ> f) cs) = map f cs"
  by (induction cs) auto

lemma requests_saveFailed: "requests (saveFailed err) = []"
  by (simp add: saveFailed_def)

lemma count_list_append: "count_list (xs @ ys) a = count_list xs a + count_list ys a"
  by (induction xs) auto

lemma count_OnSubmit_Fetch: "count_list (map (Fetch \<circ> f) cs) OnSubmit = 0"
  by (induction cs) auto

lemma list_ex_upt: "list_ex P [0..<n] = (\<exists>k<n. P k)"
  by (auto simp: list_ex_iff)

lemma isCardUpsert_cardRequest: "isCardUpsert (cardRequest u d c)"
  by (simp add: cardRequest_def split: option.splits)

lemma filter_cardRequests:
  "filter isCardUpsert (map (cardRequest u d) cs) = map (cardRequest u d) cs"
  by (induction cs) (auto simp: isCardUpsert_cardRequest)

text \<open>Update by id for a card with a truthy id, creation under the deck id otherwise.\<close>

lemma cardRequest_cases:
  "cardRequest u d =
     (\<lambda>c. if truthyOpt (card_id c)
          then UpdateCardReq (the (card_id c)) (card_front c) (card_back c)
          else CreateCardReq u d (card_front c) (card_back c))"
  by (rule ext) (simp add: cardRequest_def truthyOpt_def split: option.splits)

lemma upsertDeck_sent:
  "upsertDeck p s deckRes = (sent, r) \<Longrightarrow> filter isCardUpsert (requests sent) = []"
  by (auto simp: upsertDeck_def Let_def
        split: option.splits fetch_result.splits if_splits response_body.splits)

lemma upsertDeck_failed:
  "failed deckRes \<Longrightarrow> \<exists>sent err. upsertDeck p s deckRes = (sent, Inl err) \<and> OnSubmit \<notin> set sent"
  by (auto simp: upsertDeck_def failed_def Let_def split: option.splits fetch_result.splits)

text \<open>The definitions unfolded to evaluate the handlers on concrete inputs.\<close>

lemmas eval_defs =
  handleSubmit_def upsertDeck_def collectFlashcards_def validCard_def cardRequest_def
  saveFailed_def truthy_def truthyOpt_def trim_def isWhiteSpace_def whiteSpaceCodes_def
  blankEditor_def blankCard_def handleDeleteCard_def at_def splice1_def stateAfter_def
  effects_def currentHasId_def currentCard_def failed_def initEditor_def editorInv_def
  handleFlip_def handlePrev_def handleNext_def handleAddFlashcard_def

section \<open>Validation before saving\<close>

text \<open>
  Claim C4. When the deck title is empty after trimming, or no card has both faces
  non-empty after trimming, a save sends no request at all, shows one message to the
  user and leaves the editor state as it was.
\<close>

theorem C4_validation_aborts:
  assumes "trim (deckTitle s) = []
           \<or> (\<forall>c \<in> set (flashcardsData s). trim (card_front c) = [] \<or> trim (card_back c) = [])"
  shows "fst (handleSubmit p s deckRes cardRes) = s
       \<and> requests (snd (handleSubmit p s deckRes cardRes)) = []
       \<and> (snd (handleSubmit p s deckRes cardRes) = [Alert ''Deck title is required!'']
          \<or> snd (handleSubmit p s deckRes cardRes) = [Alert ''At least one flashcard is required!''])"
proof (cases "trim (deckTitle s) = []")
  case True
  then show ?thesis by (simp add: handleSubmit_def truthy_def)
next
  case False
  with assms have "\<forall>c \<in> set (flashcardsData s). \<not> validCard c"
    by (auto simp: validCard_def truthy_def)
  then have "collectFlashcards s = []"
    by (simp add: collectFlashcards_def filter_empty_conv)
  with False show ?thesis by (simp add: handleSubmit_def truthy_def)
qed

text \<open>
  The claim at a title of three spaces over a card that is valid: nothing is sent although
  the deck request would succeed.
\<close>

theorem C4_validation_aborts_witness:
  "trim [0x20, 0x20, 0x20] = []
   \<and> fst (handleSubmit exCreateProps
            \<lparr>deckTitle = [0x20, 0x20, 0x20], flashcardsData = [exCardNew],
             currentCardIndex = 0, isFlipped = True\<rparr>
            (Responded True (DeckBody (Some [0x64, 0x31]))) (\<lambda>k. Responded True NotJson))
       = \<lparr>deckTitle = [0x20, 0x20, 0x20], flashcardsData = [exCardNew],
          currentCardIndex = 0, isFlipped = True\<rparr>
   \<and> requests (snd (handleSubmit exCreateProps
            \<lparr>deckTitle = [0x20, 0x20, 0x20], flashcardsData = [exCardNew],
             currentCardIndex = 0, isFlipped = True\<rparr>
            (Responded True (DeckBody (Some [0x64, 0x31]))) (\<lambda>k. Responded True NotJson))) = []
   \<and> snd (handleSubmit exCreateProps
            \<lparr>deckTitle = [0x20, 0x20, 0x20], flashcardsData = [exCardNew],
             currentCardIndex = 0, isFlipped = True\<rparr>
            (Responded True (DeckBody (Some [0x64, 0x31]))) (\<lambda>k. Responded True NotJson))
       = [Alert ''Deck title is required!'']"
proof -
  have t: "trim [0x20, 0x20, 0x20] = []"
    by (simp add: trim_def isWhiteSpace_def whiteSpaceCodes_def)
  have h: "trim (deckTitle \<lparr>deckTitle = [0x20, 0x20, 0x20], flashcardsData = [exCardNew],
                            currentCardIndex = 0, isFlipped = True\<rparr>) = []
    \<or> (\<forall>c \<in> set (flashcardsData \<lparr>deckTitle = [0x20, 0x20, 0x20],
                                     flashcardsData = [exCardNew],
                                     currentCardIndex = 0, isFlipped = True\<rparr>).
          trim (card_front c) = [] \<or> trim (card_back c) = [])"
    using t by simp
  have a: "[Alert ''Deck title is required!''] \<noteq> [Alert ''At least one flashcard is required!'']"
    by simp
  have m: "snd (handleSubmit exCreateProps
            \<lparr>deckTitle = [0x20, 0x20, 0x20], flashcardsData = [exCardNew],
             currentCardIndex = 0, isFlipped = True\<rparr>
            (Responded True (DeckBody (Some [0x64, 0x31]))) (\<lambda>k. Responded True NotJson))
       = [Alert ''Deck title is required!'']"
    using t by (simp add: handleSubmit_def truthy_def)
  show ?thesis
    using t m C4_validation_aborts [OF h, of exCreateProps
           "Responded True (DeckBody (Some [0x64, 0x31]))" "\<lambda>k. Responded True NotJson"]
    by simp
qed

section \<open>Failure of the deck request\<close>

text \<open>
  Claim C5. When a save has passed validation and the deck request fails (the update of
  the title in edit mode, the creation in create mode; by a rejected transport or by a
  non-success status), the save stops there: no request to create or update a card is
  sent, the error message is shown to the user, the completion callback is not called and
  the editor keeps its state.
\<close>

theorem C5_deck_failure_aborts:
  assumes "trim (deckTitle s) \<noteq> []"
      and "collectFlashcards s \<noteq> []"
      and "failed deckRes"
  shows "fst (handleSubmit p s deckRes cardRes) = s
       \<and> filter isCardUpsert (requests (snd (handleSubmit p s deckRes cardRes))) = []
       \<and> Alert ''Error saving deck and flashcards. Please try again.''
            \<in> set (snd (handleSubmit p s deckRes cardRes))
       \<and> OnSubmit \<notin> set (snd (handleSubmit p s deckRes cardRes))"
proof -
  from assms(3) obtain sent err
    where u: "upsertDeck p s deckRes = (sent, Inl err)" and n: "OnSubmit \<notin> set sent"
    using upsertDeck_failed by blast
  have h: "handleSubmit p s deckRes cardRes = (s, sent @ saveFailed err)"
    using assms(1,2) u by (simp add: handleSubmit_def truthy_def Let_def)
  show ?thesis
    using n upsertDeck_sent [OF u]
    by (simp add: h requests_append requests_saveFailed) (simp add: saveFailed_def)
qed

text \<open>
  The claim in edit mode, on a deck update answered with a non-success status, and with
  card requests that would all have succeeded.
\<close>

theorem C5_deck_failure_aborts_witness:
  "trim (deckTitle (exEditor [exCard1, exCardNew] 0)) \<noteq> []
   \<and> collectFlashcards (exEditor [exCard1, exCardNew] 0) \<noteq> []
   \<and> failed (Responded False NotJson)
   \<and> fst (handleSubmit (exEditProps [exCard1]) (exEditor [exCard1, exCardNew] 0)
            (Responded False NotJson) (\<lambda>k. Responded True NotJson))
       = exEditor [exCard1, exCardNew] 0
   \<and> filter isCardUpsert
        (requests (snd (handleSubmit (exEditProps [exCard1]) (exEditor [exCard1, exCardNew] 0)
                          (Responded False NotJson) (\<lambda>k. Responded True NotJson)))) = []
   \<and> OnSubmit \<notin> set (snd (handleSubmit (exEditProps [exCard1]) (exEditor [exCard1, exCardNew] 0)
                          (Responded False NotJson) (\<lambda>k. Responded True NotJson)))"
proof -
  have h1: "trim (deckTitle (exEditor [exCard1, exCardNew] 0)) \<noteq> []"
    by (simp add: eval_defs)
  have h2: "collectFlashcards (exEditor [exCard1, exCardNew] 0) \<noteq> []"
    by (simp add: eval_defs)
  have h3: "failed (Responded False NotJson)"
    by (simp add: failed_def)
  show ?thesis
    using h1 h2 h3
      C5_deck_failure_aborts [where p = "exEditProps [exCard1]"
        and cardRes = "\<lambda>k. Responded True NotJson", OF h1 h2 h3]
    by simp
qed

section \<open>A save that goes through\<close>

text \<open>
  Claim C6. When a save has passed validation, the deck request succeeds (a success
  status, and in create mode a body that carries the new deck) and every card request
  resolves, the editor is reset to the blank state of create mode (empty title, exactly
  one blank card without id, index 0, front side up) and the completion callback is called
  exactly once. One deck request is sent, and the card requests sent are, in order, one
  per valid card: an update by id when the card has an id, a creation under the deck id
  otherwise. Cards that are not valid give rise to no request.
\<close>

theorem C6_save_success:
  assumes "trim (deckTitle s) \<noteq> []"
      and "\<exists>c \<in> set (flashcardsData s). validCard c"
      and "deckRes = Responded True body"
      and "(\<exists>e. editDeck p = Some e \<and> deckId = deck_id e)
           \<or> (editDeck p = None \<and> subject p \<noteq> None \<and> body = DeckBody deckId)"
      and "\<forall>k < length (filter validCard (flashcardsData s)). cardRes k \<noteq> Rejected"
  shows "fst (handleSubmit p s deckRes cardRes) =
           \<lparr>deckTitle = [],
            flashcardsData = [\<lparr>card_id = None, card_front = [], card_back = []\<rparr>],
            currentCardIndex = 0, isFlipped = False\<rparr>
       \<and> count_list (snd (handleSubmit p s deckRes cardRes)) OnSubmit = 1
       \<and> length (requests (snd (handleSubmit p s deckRes cardRes))) =
           1 + length (filter validCard (flashcardsData s))
       \<and> filter isCardUpsert (requests (snd (handleSubmit p s deckRes cardRes))) =
           map (\<lambda>c. if truthyOpt (card_id c)
                     then UpdateCardReq (the (card_id c)) (card_front c) (card_back c)
                     else CreateCardReq (username p) deckId (card_front c) (card_back c))
               (filter validCard (flashcardsData s))"
proof -
  have ne: "collectFlashcards s \<noteq> []"
    using assms(2) by (auto simp: collectFlashcards_def filter_empty_conv)
  obtain sent where u: "upsertDeck p s deckRes = (sent, Inr deckId)"
    and c: "count_list sent OnSubmit = 0" and l: "length (requests sent) = 1"
    using assms(3,4) by (cases "editDeck p"; cases "subject p") (auto simp: upsertDeck_def Let_def)
  have nr: "\<not> list_ex (\<lambda>k. cardRes k = Rejected) [0..<length (collectFlashcards s)]"
    using assms(5) by (simp add: list_ex_upt collectFlashcards_def)
  have h: "handleSubmit p s deckRes cardRes =
      (blankEditor,
       (sent @ map Fetch (map (cardRequest (username p) deckId) (collectFlashcards s))) @
       [Alert (if editDeck p \<noteq> None then ''Deck updated!'' else ''Deck and flashcards saved!''),
        OnSubmit])"
    using assms(1) ne u nr by (simp add: handleSubmit_def truthy_def Let_def)
  have r: "filter isCardUpsert (requests (snd (handleSubmit p s deckRes cardRes))) =
       map (cardRequest (username p) deckId) (collectFlashcards s)"
    using upsertDeck_sent [OF u]
    by (simp add: h requests_append requests_map_Fetch filter_cardRequests)
  show ?thesis
    using c l r
    by (simp add: h count_list_append count_OnSubmit_Fetch requests_append requests_map_Fetch
          blankEditor_def blankCard_def collectFlashcards_def cardRequest_cases)
qed

text \<open>
  The claim in edit mode on two cards, one with an id and valid, one without an id and
  with a blank back: the deck update and one card update are sent, nothing for the
  second card.
\<close>

theorem C6_save_success_witness:
  "trim (deckTitle (exEditor [exCard1, exCardHalf] 0)) \<noteq> []
   \<and> (\<exists>c \<in> set (flashcardsData (exEditor [exCard1, exCardHalf] 0)). validCard c)
   \<and> filter validCard (flashcardsData (exEditor [exCard1, exCardHalf] 0)) = [exCard1]
   \<and> fst (handleSubmit (exEditProps [exCard1, exCardNew]) (exEditor [exCard1, exCardHalf] 0)
            (Responded True NotJson) (\<lambda>k. Responded True NotJson))
       = \<lparr>deckTitle = [],
          flashcardsData = [\<lparr>card_id = None, card_front = [], card_back = []\<rparr>],
          currentCardIndex = 0, isFlipped = False\<rparr>
   \<and> count_list (snd (handleSubmit (exEditProps [exCard1, exCardNew])
                         (exEditor [exCard1, exCardHalf] 0)
                         (Responded True NotJson) (\<lambda>k. Responded True NotJson))) OnSubmit = 1
   \<and> requests (snd (handleSubmit (exEditProps [exCard1, exCardNew])
                       (exEditor [exCard1, exCardHalf] 0)
                       (Responded True NotJson) (\<lambda>k. Responded True NotJson)))
       = [UpdateDeckReq (Some [0x6F, 0x31]) [0x54], UpdateCardReq [0x63, 0x31] [0x51] [0x41]]"
proof -
  have h1: "trim (deckTitle (exEditor [exCard1, exCardHalf] 0)) \<noteq> []"
    by (simp add: eval_defs)
  have h2: "\<exists>c \<in> set (flashcardsData (exEditor [exCard1, exCardHalf] 0)). validCard c"
    by (simp add: eval_defs)
  have h3: "Responded True NotJson = Responded True NotJson"
    by simp
  have h4: "(\<exists>e. editDeck (exEditProps [exCard1, exCardNew]) = Some e \<and> Some [0x64, 0x31] = deck_id e)
           \<or> (editDeck (exEditProps [exCard1, exCardNew]) = None
               \<and> subject (exEditProps [exCard1, exCardNew]) \<noteq> None
               \<and> NotJson = DeckBody (Some [0x64, 0x31]))"
    by simp
  have h5: "\<forall>k < length (filter validCard (flashcardsData (exEditor [exCard1, exCardHalf] 0))).
         (\<lambda>k. Responded True NotJson) k \<noteq> Rejected"
    by simp
  have r: "requests (snd (handleSubmit (exEditProps [exCard1, exCardNew])
                       (exEditor [exCard1, exCardHalf] 0)
                       (Responded True NotJson) (\<lambda>k. Responded True NotJson)))
       = [UpdateDeckReq (Some [0x6F, 0x31]) [0x54], UpdateCardReq [0x63, 0x31] [0x51] [0x41]]"
    by (simp add: eval_defs)
  have f: "filter validCard (flashcardsData (exEditor [exCard1, exCardHalf] 0)) = [exCard1]"
    by (simp add: eval_defs)
  show ?thesis
    using h1 h2 f r C6_save_success [OF h1 h2 h3 h4 h5]
    by simp
qed

section \<open>Deleting a card\<close>

text \<open>
  Claim C7. In an editor state whose only card has an id, when the user confirms and the
  remote delete succeeds, deleting leaves a list of length one that holds the blank card
  without id, the index 0 and the front side up; the delete request for that id is the
  one request sent.
\<close>

theorem C7_delete_last_card:
  assumes "flashcardsData s = [c]"
      and "currentCardIndex s = 0"
      and "card_id c = Some i"
      and "i \<noteq> []"
  shows "flashcardsData (stateAfter s (handleDeleteCard s True (Responded True body))) =
           [\<lparr>card_id = None, card_front = [], card_back = []\<rparr>]
       \<and> length (flashcardsData (stateAfter s (handleDeleteCard s True (Responded True body)))) = 1
       \<and> currentCardIndex (stateAfter s (handleDeleteCard s True (Responded True body))) = 0
       \<and> isFlipped (stateAfter s (handleDeleteCard s True (Responded True body))) = False
       \<and> requests (effects (handleDeleteCard s True (Responded True body))) = [DeleteCardReq i]"
  using assms
  by (simp add: handleDeleteCard_def at_def truthy_def splice1_def stateAfter_def effects_def
        blankCard_def)

text \<open>The claim on the editor that holds the single card \<open>"c1"\<close>, back side up.\<close>

theorem C7_delete_last_card_witness:
  "flashcardsData (exEditor [exCard1] 0) = [exCard1]
   \<and> currentCardIndex (exEditor [exCard1] 0) = 0
   \<and> card_id exCard1 = Some [0x63, 0x31]
   \<and> [0x63, 0x31] \<noteq> ([] :: jsstring)
   \<and> stateAfter (exEditor [exCard1] 0)
        (handleDeleteCard (exEditor [exCard1] 0) True (Responded True NotJson))
       = \<lparr>deckTitle = [0x54],
          flashcardsData = [\<lparr>card_id = None, card_front = [], card_back = []\<rparr>],
          currentCardIndex = 0, isFlipped = False\<rparr>"
proof -
  have h1: "flashcardsData (exEditor [exCard1] 0) = [exCard1]" by simp
  have h2: "currentCardIndex (exEditor [exCard1] 0) = 0" by simp
  have h3: "card_id exCard1 = Some [0x63, 0x31]" by simp
  have h4: "[0x63, 0x31] \<noteq> ([] :: jsstring)" by simp
  have t: "deckTitle (stateAfter (exEditor [exCard1] 0)
        (handleDeleteCard (exEditor [exCard1] 0) True (Responded True NotJson))) = [0x54]"
    by (simp add: eval_defs)
  show ?thesis
    using h1 h2 h3 h4 t C7_delete_last_card [OF h1 h2 h3 h4, of NotJson]
    by (simp add: editor.equality)
qed

text \<open>
  Claim C9. When the current card has no id, or the user declines the prompt, deleting
  sends no request and leaves the whole editor state (cards, index, flip flag, title) as
  it was. This covers the state without a current card as well, where the handler throws
  at once.
\<close>

theorem C9_delete_without_effect:
  assumes "\<not> currentHasId s \<or> \<not> confirm"
  shows "stateAfter s (handleDeleteCard s confirm res) = s
       \<and> requests (effects (handleDeleteCard s confirm res)) = []"
  using assms
  by (auto simp: handleDeleteCard_def currentHasId_def currentCard_def truthyOpt_def
        stateAfter_def effects_def split: option.splits)

text \<open>
  The claim where the current card \<open>"c2"\<close> has an id and the user declines, although
  the store would have answered with success.
\<close>

theorem C9_delete_without_effect_witness:
  "currentHasId (exEditor [exCard1, exCard2] 1)
   \<and> stateAfter (exEditor [exCard1, exCard2] 1)
        (handleDeleteCard (exEditor [exCard1, exCard2] 1) False (Responded True NotJson))
       = exEditor [exCard1, exCard2] 1
   \<and> requests (effects
        (handleDeleteCard (exEditor [exCard1, exCard2] 1) False (Responded True NotJson))) = []"
proof -
  have h: "\<not> currentHasId (exEditor [exCard1, exCard2] 1) \<or> \<not> False" by simp
  have c: "currentHasId (exEditor [exCard1, exCard2] 1)" by (simp add: eval_defs)
  show ?thesis
    using c C9_delete_without_effect [OF h, of "Responded True NotJson"]
    by simp
qed

section \<open>The two identifiers of an edit target\<close>

text \<open>
  Claim C10. In edit mode, a save that has passed validation addresses the update of the
  title by the \<open>_id\<close> of the edit target, whatever the store answers. When that update
  succeeds, the cards without id are created under the \<open>deck_id\<close> field of the edit
  target; the body of the update's response has no influence on anything the save does.
  Nothing compares the two identifiers or looks whether \<open>deck_id\<close> is there: when no
  card request is rejected the save ends as a success.
\<close>

theorem C10_edit_mode_identifiers:
  assumes "editDeck p = Some e"
      and "trim (deckTitle s) \<noteq> []"
      and "collectFlashcards s \<noteq> []"
  shows "take 1 (requests (snd (handleSubmit p s deckRes cardRes))) =
           [UpdateDeckReq (deck_oid e) (deckTitle s)]
       \<and> requests (snd (handleSubmit p s (Responded True body) cardRes)) =
           UpdateDeckReq (deck_oid e) (deckTitle s)
           # map (\<lambda>c. if truthyOpt (card_id c)
                       then UpdateCardReq (the (card_id c)) (card_front c) (card_back c)
                       else CreateCardReq (username p) (deck_id e) (card_front c) (card_back c))
                 (collectFlashcards s)
       \<and> handleSubmit p s (Responded True body) cardRes =
           handleSubmit p s (Responded True body') cardRes
       \<and> ((\<forall>k < length (collectFlashcards s). cardRes k \<noteq> Rejected) \<longrightarrow>
            fst (handleSubmit p s (Responded True body) cardRes) = blankEditor
            \<and> OnSubmit \<in> set (snd (handleSubmit p s (Responded True body) cardRes)))"
proof -
  let ?upd = "Fetch (UpdateDeckReq (deck_oid e) (deckTitle s))"
  let ?cards = "map (Fetch \<circ> cardRequest (username p) (deck_id e)) (collectFlashcards s)"
  have u: "upsertDeck p s (Responded True b) = ([?upd], Inr (deck_id e))" for b
    using assms(1) by (simp add: upsertDeck_def)
  have h: "handleSubmit p s (Responded True b) cardRes =
      (if list_ex (\<lambda>k. cardRes k = Rejected) [0..<length (collectFlashcards s)]
       then (s, (?upd # ?cards) @ saveFailed NetworkError)
       else (blankEditor, (?upd # ?cards) @ [Alert ''Deck updated!'', OnSubmit]))" for b
    using assms by (simp add: handleSubmit_def truthy_def Let_def u)
  have 0: "take 1 (requests (snd (handleSubmit p s deckRes cardRes))) =
           [UpdateDeckReq (deck_oid e) (deckTitle s)]"
  proof (cases deckRes)
    case Rejected
    then show ?thesis
      using assms by (simp add: handleSubmit_def truthy_def Let_def upsertDeck_def)
  next
    case (Responded ok b)
    show ?thesis
    proof (cases ok)
      case True
      with Responded show ?thesis by (simp add: h)
    next
      case False
      with Responded show ?thesis
        using assms by (simp add: handleSubmit_def truthy_def Let_def upsertDeck_def)
    qed
  qed
  have 1: "requests (snd (handleSubmit p s (Responded True body) cardRes)) =
           UpdateDeckReq (deck_oid e) (deckTitle s)
           # map (cardRequest (username p) (deck_id e)) (collectFlashcards s)"
    by (simp add: h requests_append requests_map_Fetch requests_saveFailed)
  have 2: "handleSubmit p s (Responded True body) cardRes =
           handleSubmit p s (Responded True body') cardRes"
    by (simp only: h)
  have 3: "(\<forall>k < length (collectFlashcards s). cardRes k \<noteq> Rejected) \<longrightarrow>
            fst (handleSubmit p s (Responded True body) cardRes) = blankEditor
            \<and> OnSubmit \<in> set (snd (handleSubmit p s (Responded True body) cardRes))"
    by (auto simp: h list_ex_upt)
  from 0 1 2 3 show ?thesis by (simp only: cardRequest_cases) 
qed

text \<open>
  The claim on an edit target whose \<open>_id\<close> is \<open>"o1"\<close> and whose \<open>deck_id\<close> is
  \<open>"d1"\<close>, with the response body naming yet another deck \<open>"d2"\<close>: the title goes to
  \<open>"o1"\<close>, the new card to \<open>"d1"\<close>, and the save succeeds.
\<close>

theorem C10_edit_mode_identifiers_witness:
  "editDeck (exEditProps [exCard1]) = Some (exEditDeck [exCard1])
   \<and> trim (deckTitle (exEditor [exCard1, exCardNew] 0)) \<noteq> []
   \<and> collectFlashcards (exEditor [exCard1, exCardNew] 0) \<noteq> []
   \<and> collectFlashcards (exEditor [exCard1, exCardNew] 0) = [exCard1, exCardNew]
   \<and> deck_oid (exEditDeck [exCard1]) \<noteq> deck_id (exEditDeck [exCard1])
   \<and> requests (snd (handleSubmit (exEditProps [exCard1]) (exEditor [exCard1, exCardNew] 0)
                       (Responded True (DeckBody (Some [0x64, 0x32])))
                       (\<lambda>k. Responded True NotJson)))
       = [UpdateDeckReq (Some [0x6F, 0x31]) [0x54],
          UpdateCardReq [0x63, 0x31] [0x51] [0x41],
          CreateCardReq [0x75] (Some [0x64, 0x31]) [0x51] [0x41]]
   \<and> fst (handleSubmit (exEditProps [exCard1]) (exEditor [exCard1, exCardNew] 0)
            (Responded True (DeckBody (Some [0x64, 0x32]))) (\<lambda>k. Responded True NotJson))
       = blankEditor
   \<and> OnSubmit \<in> set (snd (handleSubmit (exEditProps [exCard1]) (exEditor [exCard1, exCardNew] 0)
                            (Responded True (DeckBody (Some [0x64, 0x32])))
                            (\<lambda>k. Responded True NotJson)))"
proof -
  have h1: "editDeck (exEditProps [exCard1]) = Some (exEditDeck [exCard1])" by simp
  have h2: "trim (deckTitle (exEditor [exCard1, exCardNew] 0)) \<noteq> []"
    by (simp add: eval_defs)
  have h3: "collectFlashcards (exEditor [exCard1, exCardNew] 0) \<noteq> []"
    by (simp add: eval_defs)
  have h4: "\<forall>k < length (collectFlashcards (exEditor [exCard1, exCardNew] 0)).
         (\<lambda>k. Responded True NotJson) k \<noteq> Rejected"
    by simp
  have c: "collectFlashcards (exEditor [exCard1, exCardNew] 0) = [exCard1, exCardNew]"
    by (simp add: eval_defs)
  show ?thesis
    using h1 h2 h3 h4 c
      C10_edit_mode_identifiers [OF h1 h2 h3, where cardRes = "\<lambda>k. Responded True NotJson"
        and body = "DeckBody (Some [0x64, 0x32])"]
    by (simp add: c truthyOpt_def truthy_def)
qed

section \<open>Card requests answered with a failure status\<close>

text \<open>
  What \<open>handleSubmit\<close> does with the outcomes of the card requests: a rejected promise
  takes the save to the \<open>catch\<close> block, and nothing else about an outcome is read.
\<close>

lemma handleSubmit_card_rejected:
  assumes "trim (deckTitle s) \<noteq> []"
      and "collectFlashcards s \<noteq> []"
      and "upsertDeck p s deckRes = (sent, Inr deckId)"
      and "k < length (collectFlashcards s)"
      and "cardRes k = Rejected"
  shows "handleSubmit p s deckRes cardRes =
           (s, (sent @ map (Fetch \<circ> cardRequest (username p) deckId) (collectFlashcards s))
               @ saveFailed NetworkError)"
proof -
  have "list_ex (\<lambda>k. cardRes k = Rejected) [0..<length (collectFlashcards s)]"
    using assms(4,5) by (auto simp: list_ex_upt)
  then show ?thesis
    using assms(1,2,3) by (simp add: handleSubmit_def truthy_def Let_def)
qed

lemma handleSubmit_status_unread:
  assumes "\<And>k. (cardRes k = Rejected) = (cardRes' k = Rejected)"
  shows "handleSubmit p s deckRes cardRes = handleSubmit p s deckRes cardRes'"
proof -
  have e: "(\<lambda>k. cardRes k = Rejected) = (\<lambda>k. cardRes' k = Rejected)"
    by (rule ext) (rule assms)
  show ?thesis
    unfolding handleSubmit_def e by (rule refl)
qed

text \<open>
  Claim C1. The claim asks that a save whose deck request succeeded and one of whose card
  requests failed, by a rejected transport or by a non-success status, reports the one
  generic failure, keeps the editor state and does not call the completion callback.
  The code does so for a rejected transport only. In create mode, with the title
  \<open>"T"\<close> and the one card \<open>"Q"\<close>/\<open>"A"\<close>, a deck creation answered with success and
  the deck \<open>"d1"\<close>, and the card creation answered with a non-success status, the save
  announces success, resets the editor to the blank state and calls the completion
  callback.
\<close>

theorem C1_card_status_ignored:
  "failed (Responded False NotJson)
   \<and> handleSubmit exCreateProps (exEditor [exCardNew] 0)
        (Responded True (DeckBody (Some [0x64, 0x31]))) (\<lambda>k. Responded False NotJson)
     = (\<lparr>deckTitle = [],
         flashcardsData = [\<lparr>card_id = None, card_front = [], card_back = []\<rparr>],
         currentCardIndex = 0, isFlipped = False\<rparr>,
        [Fetch (CreateDeckReq [0x75] [0x54] [0x73, 0x31]),
         Fetch (CreateCardReq [0x75] (Some [0x64, 0x31]) [0x51] [0x41]),
         Alert ''Deck and flashcards saved!'',
         OnSubmit])"
  by (simp add: eval_defs)

section \<open>A delete answered with a failure status\<close>

text \<open>
  What \<open>handleDeleteCard\<close> does with the outcome of the DELETE request: a rejected
  promise leaves the state alone and alerts the user; a response is not looked at.
\<close>

lemma handleDeleteCard_rejected:
  assumes "currentCard s = Some c" and "card_id c = Some i" and "i \<noteq> []"
  shows "handleDeleteCard s True Rejected =
           Inr (s, [Confirm ''Are you sure you want to delete this card?'',
                    Fetch (DeleteCardReq i),
                    ConsoleError ''Error deleting flashcard:'' NetworkError,
                    Alert ''Failed to delete flashcard.''])"
  using assms by (simp add: handleDeleteCard_def currentCard_def truthy_def)

lemma handleDeleteCard_status_unread:
  "handleDeleteCard s confirm (Responded ok body) = handleDeleteCard s confirm (Responded ok' body')"
  by (simp add: handleDeleteCard_def split: option.splits)

text \<open>
  Claim C2. The claim asks that a confirmed delete of a card with an id whose remote
  delete fails, by a rejected transport or by a non-success status, leaves cards, index,
  flip flag and title unchanged and tells the user. The code does so for a rejected
  transport only. On the two cards \<open>"c1"\<close>, \<open>"c2"\<close> with the second one current and
  shown back side up, a delete answered with a non-success status removes \<open>"c2"\<close> from
  the list, moves the index to 0, turns the card front side up and shows no message.
\<close>

theorem C2_delete_status_ignored:
  "failed (Responded False NotJson)
   \<and> handleDeleteCard (exEditor [exCard1, exCard2] 1) True (Responded False NotJson)
     = Inr (\<lparr>deckTitle = [0x54], flashcardsData = [exCard1],
             currentCardIndex = 0, isFlipped = False\<rparr>,
            [Confirm ''Are you sure you want to delete this card?'',
             Fetch (DeleteCardReq [0x63, 0x32])])"
  by (simp add: eval_defs)

section \<open>The invariant of the session state\<close>

text \<open>
  Every operation keeps the list non-empty and the index inside it, and so does every
  sequence of operations; the blank state of create mode and the state loaded from an
  edit target with at least one card start inside the invariant.
\<close>

lemma editorInv_step: "editorInv s \<Longrightarrow> editorInv (step a s)"
  by (cases a)
     (auto simp: editorInv_def handleFlip_def handlePrev_def handleNext_def
        handleAddFlashcard_def handleChangeFront_def handleChangeBack_def handleDeleteCard_def
        stateAfter_def at_def splice1_def Let_def
        split: option.splits fetch_result.splits if_splits sum.splits)

lemma editorInv_run: "editorInv s \<Longrightarrow> editorInv (run as s)"
  by (induction as arbitrary: s) (auto simp: editorInv_step)

lemma editorInv_create: "editorInv (initEditor None)"
  by (simp add: initEditor_def blankEditor_def editorInv_def)

lemma editorInv_edit: "cards d \<noteq> [] \<Longrightarrow> editorInv (initEditor (Some d))"
  by (cases "cards d") (simp_all add: initEditor_def editorInv_def)

text \<open>
  An operation among Prev, Next, AddCard and a confirmed, answered delete that changes
  the index or the list leaves the front side up.
\<close>

lemma isFlipped_reset:
  assumes "a = Prev \<or> a = Next \<or> a = AddCard \<or> a = DeleteCard True (Responded ok body)"
      and "currentCardIndex (step a s) \<noteq> currentCardIndex s
           \<or> flashcardsData (step a s) \<noteq> flashcardsData s"
  shows "\<not> isFlipped (step a s)"
  using assms
  by (auto simp: handlePrev_def handleNext_def handleAddFlashcard_def handleDeleteCard_def
        stateAfter_def Let_def split: option.splits if_splits)

text \<open>
  Claim C3. The claim asks that in every reachable editor state, after any sequence of
  operations, the list of cards is non-empty and the index is inside it, and that the
  front side is up after an operation that changes the current card. The operations keep
  this, but the state loaded from an edit target need not have it: for an edit target
  without cards the effect stores the empty list with index 0, so there is no current
  card, and flipping or stepping does not change that. The delete handler puts the blank
  card in place of an empty list; the loading effect does not.
\<close>

theorem C3_empty_edit_target:
  "flashcardsData (initEditor (Some (exEditDeck []))) = []
   \<and> currentCardIndex (initEditor (Some (exEditDeck []))) = 0
   \<and> currentCard (initEditor (Some (exEditDeck []))) = None
   \<and> \<not> editorInv (initEditor (Some (exEditDeck [])))
   \<and> \<not> editorInv (run [Flip, Next, Prev] (initEditor (Some (exEditDeck []))))"
  by (simp add: eval_defs)

end
